theory Spec2Isabelle
  imports Complex_Main
begin

section \<open>The null.qubit device: resource accounting\<close>

text \<open>
  Source: \<^verbatim>\<open>src/pennylane/devices/null_qubit.py\<close>. The operator classes live outside
  the module; an operation is modelled by the four things the accountant asks of it: its
  class (exactly \<^verbatim>\<open>Controlled\<close> or \<^verbatim>\<open>ControlledOp\<close>, an instance of
  \<^verbatim>\<open>Adjoint\<close>, any other class that has a \<^verbatim>\<open>base\<close> attribute, or a class without
  one), its \<^verbatim>\<open>name\<close>, its \<^verbatim>\<open>control_wires\<close> and its \<^verbatim>\<open>base\<close>.
\<close>

datatype wire = IntWire int | StrWire string

datatype operation =
    Gate string
  | Controlled string "wire list" operation
  | ControlledOp string "wire list" operation
  | Adjoint string operation
  | Composite string operation

text \<open>
  \<open>Gate\<close> has no \<^verbatim>\<open>base\<close>; \<open>Composite\<close> is any other class exposing one (CNOT, Pow, ...).
\<close>

fun op_name :: "operation \<Rightarrow> string" where
  "op_name (Gate n) = n"
| "op_name (Controlled n cw b) = n"
| "op_name (ControlledOp n cw b) = n"
| "op_name (Adjoint n b) = n"
| "op_name (Composite n b) = n"

subsection \<open>Decimal and binary rendering of Python integers\<close>

definition digit_char :: "nat \<Rightarrow> char" where
  "digit_char d = ''0123456789'' ! d"

function str_nat :: "nat \<Rightarrow> string" where
  "str_nat n = (if n < 10 then [digit_char n] else str_nat (n div 10) @ [digit_char (n mod 10)])"
  by pat_completeness auto
termination
  by (relation "measure id") auto

declare str_nat.simps [simp del]

definition str_int :: "int \<Rightarrow> string" where
  "str_int i = (if i < 0 then CHR ''-'' # str_nat (nat (- i)) else str_nat (nat i))"

subsection \<open>The unwrap loop and the composed name (lines 141 to 167)\<close>

text \<open>
  The \<^verbatim>\<open>while hasattr(op, "base")\<close> loop, started from the given counters: it
  returns \<^verbatim>\<open>controls\<close>, \<^verbatim>\<open>adj\<close> and the operation it stopped at.
\<close>

fun unwrap :: "nat \<Rightarrow> bool \<Rightarrow> operation \<Rightarrow> nat \<times> bool \<times> operation" where
  "unwrap controls adj (Controlled n cw b) = unwrap (controls + length cw) adj b"
| "unwrap controls adj (ControlledOp n cw b) = unwrap (controls + length cw) adj b"
| "unwrap controls adj (Adjoint n b) = unwrap controls (\<not> adj) b"
| "unwrap controls adj (Composite n b) = (controls, adj, Composite n b)"
| "unwrap controls adj (Gate n) = (controls, adj, Gate n)"

text \<open>Lines 161 to 165: the name built from the counters.\<close>

definition compose_name :: "nat \<Rightarrow> bool \<Rightarrow> string \<Rightarrow> string" where
  "compose_name controls adj nm =
     (let name1 = (if adj then ''Adj('' @ nm @ '')'' else nm)
      in if controls \<noteq> 0
         then (if controls > 1 then str_nat controls else []) @ ''C('' @ name1 @ '')''
         else name1)"

text \<open>
  One pass of the loop body for one operation: \<open>None\<close> is the \<^verbatim>\<open>continue\<close> taken
  for a barrier, \<open>Some name\<close> the key whose count is incremented.
\<close>

definition gate_name :: "operation \<Rightarrow> string option" where
  "gate_name op =
     (case unwrap 0 False op of
        (controls, adj, op') \<Rightarrow>
          if op_name op' = ''Barrier'' then None
          else Some (compose_name controls adj (op_name op')))"

text \<open>
  \<^verbatim>\<open>gate_types = defaultdict(int)\<close>: a dictionary keeps insertion order, so it is an
  association list; \<^verbatim>\<open>gate_types[name] += 1\<close> updates in place or appends.
\<close>

type_synonym histogram = "(string \<times> nat) list"

fun incr :: "string \<Rightarrow> histogram \<Rightarrow> histogram" where
  "incr k [] = [(k, 1)]"
| "incr k ((k', v) # rest) = (if k = k' then (k', v + 1) # rest else (k', v) # incr k rest)"

fun count_gates :: "operation list \<Rightarrow> histogram \<Rightarrow> histogram" where
  "count_gates [] gate_types = gate_types"
| "count_gates (op # ops) gate_types =
     (case gate_name op of
        None \<Rightarrow> count_gates ops gate_types
      | Some name \<Rightarrow> count_gates ops (incr name gate_types))"

record resource_report =
  num_wires :: nat
  num_gates :: nat
  gate_types :: histogram

text \<open>
  \<^verbatim>\<open>_simulate_resource_use\<close>, as a function of the two things it reads of the circuit
  (\<^verbatim>\<open>circuit.wires\<close> and \<^verbatim>\<open>circuit.operations\<close>); the value is the object handed to
  \<^verbatim>\<open>json.dump\<close>.
\<close>

definition simulate_resource_use :: "wire list \<Rightarrow> operation list \<Rightarrow> resource_report" where
  "simulate_resource_use circuit_wires circuit_operations =
     (let gt = count_gates circuit_operations []
      in \<lparr> num_wires = length circuit_wires,
           num_gates = sum_list (map snd gt),
           gate_types = gt \<rparr>)"

section \<open>Zero results\<close>

subsection \<open>Values\<close>

text \<open>
  The exceptions: those the module raises itself, the one \<^verbatim>\<open>open\<close> raises, and the
  two that reach it from a measurement's shape method and from the array constructor.
\<close>

datatype error =
    ValueError string
  | IndexError
  | FileExistsError string
  | MeasurementShapeError string
  | TypeError

text \<open>
  Modelled from the spec: the shot specification of a circuit (class \<^verbatim>\<open>Shots\<close>, not in
  the module) is "none, a single count, or a list of partitioned counts", with a queryable
  "has partitions" flag. Without shots the object is falsy; iterating it yields the counts.
\<close>

datatype shots = NoShots | SingleShots nat | PartitionedShots "nat list"

definition has_partitioned_shots :: "shots \<Rightarrow> bool" where
  "has_partitioned_shots sh = (case sh of PartitionedShots ns \<Rightarrow> True | _ \<Rightarrow> False)"

text \<open>
  What \<^verbatim>\<open>zero_measurement\<close> receives as \<^verbatim>\<open>shots\<close>: \<^verbatim>\<open>None\<close> or an integer from
  \<^verbatim>\<open>_simulate\<close>, the circuit's whole \<^verbatim>\<open>Shots\<close> object from \<^verbatim>\<open>_derivatives\<close>.
\<close>

datatype shots_arg = NoneShots | IntShots nat | ShotsObj shots

datatype dtype = DFloat | DInt | DComplex | DInt8

datatype key = StrKey string | NumKey real

text \<open>
  An array is its interface tag (\<^verbatim>\<open>like\<close>), its dtype, its shape and its elements in
  row-major order. \<open>ObjArr\<close> is \<^verbatim>\<open>math.asarray\<close> of a shots argument that is not an
  integer. A dictionary keeps insertion order.
\<close>

datatype result =
    Arr string dtype "nat list" "real list"
  | ObjArr string shots_arg
  | Dict "(key \<times> result) list"
  | Tuple "result list"

text \<open>
  Modelled from the spec: the array backend selector (\<^verbatim>\<open>pennylane.math\<close>, not in the
  module), which "produces zero-filled arrays of requested shape/dtype and scalar/array
  wrapping of plain numbers".
\<close>

definition math_zeros :: "nat list \<Rightarrow> string \<Rightarrow> dtype \<Rightarrow> result" where
  "math_zeros shape like dt = Arr like dt shape (replicate (prod_list shape) 0)"

text \<open>
  A dimension of the shape a measurement reports: an integer, or the object it was handed
  as \<^verbatim>\<open>shots\<close> when that is not one. \<^verbatim>\<open>math.zeros\<close> raises a \<^verbatim>\<open>TypeError\<close> on a
  dimension that is not an integer.
\<close>

datatype dim = IntDim nat | ObjDim shots

fun int_dims :: "dim list \<Rightarrow> nat list option" where
  "int_dims [] = Some []"
| "int_dims (IntDim n # ds) = (case int_dims ds of None \<Rightarrow> None | Some ns \<Rightarrow> Some (n # ns))"
| "int_dims (ObjDim sh # ds) = None"

definition math_zeros_dims :: "dim list \<Rightarrow> string \<Rightarrow> dtype \<Rightarrow> error + result" where
  "math_zeros_dims shape like dt =
     (case int_dims shape of
        None \<Rightarrow> Inl TypeError
      | Some ns \<Rightarrow> Inr (math_zeros ns like dt))"

definition math_asarray_shots :: "shots_arg \<Rightarrow> string \<Rightarrow> result" where
  "math_asarray_shots s like =
     (case s of IntShots n \<Rightarrow> Arr like DInt [] [real n] | _ \<Rightarrow> ObjArr like s)"

definition math_asarray_int :: "int \<Rightarrow> string \<Rightarrow> result" where
  "math_asarray_int i like = Arr like DInt [] [real_of_int i]"

definition math_asarray_float :: "real \<Rightarrow> string \<Rightarrow> result" where
  "math_asarray_float x like = Arr like DFloat [] [x]"

definition math_asarray_vector :: "real list \<Rightarrow> string \<Rightarrow> result" where
  "math_asarray_vector v like = Arr like DFloat [length v] v"

definition math_asarray_rows :: "real list list \<Rightarrow> string \<Rightarrow> result" where
  "math_asarray_rows rows like =
     (case rows of
        [] \<Rightarrow> Arr like DFloat [0] []
      | r # rs \<Rightarrow> Arr like DFloat [length rows, length r] (concat rows))"

subsection \<open>Measurements\<close>

text \<open>
  \<open>mp_kind\<close> is the class \<^verbatim>\<open>singledispatch\<close> resolves the measurement to. The record
  holds what the producers read of a measurement; \<open>mp_shape\<close> is its own
  \<^verbatim>\<open>shape(shots, num_device_wires)\<close> method, which may raise, and \<open>mp_eigvals\<close> what
  \<^verbatim>\<open>eigvals()\<close> returns, both defined outside the module.
\<close>

datatype mp_kind =
  ClassicalShadowMP | CountsMP | DensityMatrixMP | StateMP | ProbabilityMP | OtherMP

record measurement =
  mp_kind :: mp_kind
  mp_wires :: "wire list"
  mp_obs_is_none :: bool
  mp_mv_is_measurement_value :: bool
  mp_all_outcomes :: bool
  mp_eigvals :: "real list"
  mp_shape :: "shots_arg \<Rightarrow> nat \<Rightarrow> error + dim list"
  mp_numeric_type :: dtype

subsection \<open>The producers (lines 57 to 130)\<close>

fun is_prefix :: "string \<Rightarrow> string \<Rightarrow> bool" where
  "is_prefix [] ys = True"
| "is_prefix (x # xs) [] = False"
| "is_prefix (x # xs) (y # ys) = (x = y \<and> is_prefix xs ys)"

text \<open>Python's \<^verbatim>\<open>sub in s\<close> on strings.\<close>

fun str_in :: "string \<Rightarrow> string \<Rightarrow> bool" where
  "str_in sub [] = (sub = [])"
| "str_in sub (c # cs) = (is_prefix sub (c # cs) \<or> str_in sub cs)"

text \<open>
  \<^verbatim>\<open>lru_cache\<close> memoises a pure function: the cached call returns a value equal to the
  uncached one, and only object identity, which no result here records, can tell them apart.
\<close>

definition cached_zero_return :: "dim list \<Rightarrow> string \<Rightarrow> dtype \<Rightarrow> error + result" where
  "cached_zero_return shape interface dt = math_zeros_dims shape interface dt"

text \<open>\<^verbatim>\<open>_zero_measurement\<close>, the default producer.\<close>

definition zero_measurement_default ::
  "measurement \<Rightarrow> nat \<Rightarrow> shots_arg \<Rightarrow> nat option \<Rightarrow> string \<Rightarrow> error + result" where
  "zero_measurement_default mp num_device_wires shots batch_size interface =
     (case mp_shape mp shots num_device_wires of
        Inl e \<Rightarrow> Inl e
      | Inr shape0 \<Rightarrow>
          (let shape = (case batch_size of None \<Rightarrow> shape0 | Some b \<Rightarrow> IntDim b # shape0)
           in if \<not> str_in ''jax'' interface
              then cached_zero_return shape interface (mp_numeric_type mp)
              else math_zeros_dims shape interface (mp_numeric_type mp)))"

definition zero_measurement_shadow ::
  "measurement \<Rightarrow> nat \<Rightarrow> shots_arg \<Rightarrow> nat option \<Rightarrow> string \<Rightarrow> error + result" where
  "zero_measurement_shadow mp num_device_wires shots batch_size interface =
     (if batch_size \<noteq> None
      then Inl (ValueError
        ''Parameter broadcasting is not supported with null.qubit and qml.classical_shadow'')
      else (case mp_shape mp shots num_device_wires of
              Inl e \<Rightarrow> Inl e
            | Inr shape \<Rightarrow> math_zeros_dims shape interface DInt8))"

function bin_nat :: "nat \<Rightarrow> string" where
  "bin_nat n = (if n < 2 then [digit_char n] else bin_nat (n div 2) @ [digit_char (n mod 2)])"
  by pat_completeness auto
termination
  by (relation "measure id") auto

declare bin_nat.simps [simp del]

text \<open>The format \<^verbatim>\<open>f"{x:0{width}b}"\<close>: binary digits, padded with zeros on the left.\<close>

definition format_bin :: "nat \<Rightarrow> nat \<Rightarrow> string" where
  "format_bin width x = (let s = bin_nat x in replicate (width - length s) CHR ''0'' @ s)"

text \<open>\<^verbatim>\<open>results[val] = v\<close> on an insertion-ordered dictionary.\<close>

fun dict_set :: "key \<Rightarrow> result \<Rightarrow> (key \<times> result) list \<Rightarrow> (key \<times> result) list" where
  "dict_set k v [] = [(k, v)]"
| "dict_set k v ((k', v') # rest) =
     (if k = k' then (k', v) # rest else (k', v') # dict_set k v rest)"

definition zero_measurement_counts ::
  "measurement \<Rightarrow> nat \<Rightarrow> shots_arg \<Rightarrow> nat option \<Rightarrow> string \<Rightarrow> error + result" where
  "zero_measurement_counts mp num_device_wires shots batch_size interface =
     (let first =
        (if mp_obs_is_none mp \<and> \<not> mp_mv_is_measurement_value mp
         then Inr ([(StrKey (replicate num_device_wires CHR ''0''),
                     math_asarray_shots shots interface)],
                   (if mp_all_outcomes mp
                    then map (\<lambda>x. StrKey (format_bin num_device_wires x))
                           [1 ..< 2 ^ num_device_wires]
                    else []))
         else (case sort (mp_eigvals mp) of
                 [] \<Rightarrow> Inl IndexError
               | e # es \<Rightarrow>
                   Inr ([(NumKey e, math_asarray_shots shots interface)],
                        (if mp_all_outcomes mp then map NumKey es else []))))
      in case first of
           Inl err \<Rightarrow> Inl err
         | Inr (results0, outcomes) \<Rightarrow>
             (let results = fold (\<lambda>val rs. dict_set val (math_asarray_int 0 interface) rs)
                              outcomes results0
              in case batch_size of
                   None \<Rightarrow> Inr (Dict results)
                 | Some b \<Rightarrow> Inr (Tuple (replicate b (Dict results)))))"

definition zero_measurement_state ::
  "measurement \<Rightarrow> nat \<Rightarrow> shots_arg \<Rightarrow> nat option \<Rightarrow> string \<Rightarrow> error + result" where
  "zero_measurement_state mp num_device_wires shots batch_size interface =
     (let num_wires = (if length (mp_wires mp) \<noteq> 0 then length (mp_wires mp)
                       else num_device_wires);
          state = 1 # replicate (2 ^ num_wires - 1) 0
      in case batch_size of
           None \<Rightarrow> Inr (math_asarray_vector state interface)
         | Some b \<Rightarrow> Inr (math_asarray_rows (replicate b state) interface))"

text \<open>The dispatch of \<^verbatim>\<open>zero_measurement\<close> on the registered classes.\<close>

definition zero_measurement ::
  "measurement \<Rightarrow> nat \<Rightarrow> shots_arg \<Rightarrow> nat option \<Rightarrow> string \<Rightarrow> error + result" where
  "zero_measurement mp num_device_wires shots batch_size interface =
     (case mp_kind mp of
        ClassicalShadowMP \<Rightarrow>
          zero_measurement_shadow mp num_device_wires shots batch_size interface
      | CountsMP \<Rightarrow> zero_measurement_counts mp num_device_wires shots batch_size interface
      | DensityMatrixMP \<Rightarrow>
          zero_measurement_default mp num_device_wires shots batch_size interface
      | StateMP \<Rightarrow> zero_measurement_state mp num_device_wires shots batch_size interface
      | ProbabilityMP \<Rightarrow> zero_measurement_state mp num_device_wires shots batch_size interface
      | OtherMP \<Rightarrow> zero_measurement_default mp num_device_wires shots batch_size interface)"

section \<open>The device\<close>

record circuit =
  operations :: "operation list"
  measurements :: "measurement list"
  circuit_wires :: "wire list"
  circuit_shots :: shots
  batch_size :: "nat option"
  trainable_params :: "nat list"

text \<open>\<open>dev_wires\<close> is \<^verbatim>\<open>self.wires\<close>: \<^verbatim>\<open>None\<close> or the wires given at construction.\<close>

record device =
  dev_wires :: "wire list option"
  track_resources :: bool

text \<open>
  What the device touches outside itself: the clock (\<open>clock w n\<close> is the nanosecond
  timestamp computed from the \<open>n\<close>-th reading of \<^verbatim>\<open>time.time()\<close>, \<open>ticks\<close> counts the
  readings made so far) and the files of the working directory, by name, in creation order.
\<close>

record world =
  clock :: "nat \<Rightarrow> int"
  ticks :: nat
  files :: "(string \<times> resource_report) list"

definition RESOURCES_FNAME_PREFIX :: string where
  "RESOURCES_FNAME_PREFIX = ''__pennylane_resources_data_''"

text \<open>Sequencing of calls that may raise: the first error ends the run.\<close>

fun collect :: "('a \<Rightarrow> error + 'b) \<Rightarrow> 'a list \<Rightarrow> error + 'b list" where
  "collect f [] = Inr []"
| "collect f (x # xs) =
     (case f x of
        Inl e \<Rightarrow> Inl e
      | Inr y \<Rightarrow> (case collect f xs of Inl e \<Rightarrow> Inl e | Inr ys \<Rightarrow> Inr (y # ys)))"

text \<open>The values of \<^verbatim>\<open>for s in circuit.shots or [None]\<close>.\<close>

definition shots_iter :: "shots \<Rightarrow> shots_arg list" where
  "shots_iter sh =
     (case sh of
        NoShots \<Rightarrow> [NoneShots]
      | SingleShots n \<Rightarrow> [IntShots n]
      | PartitionedShots ns \<Rightarrow> map IntShots ns)"

text \<open>Lines 299 to 303: the entry appended to \<^verbatim>\<open>results\<close> for one value of \<^verbatim>\<open>s\<close>.\<close>

definition shot_result :: "nat \<Rightarrow> circuit \<Rightarrow> string \<Rightarrow> shots_arg \<Rightarrow> error + result" where
  "shot_result num_device_wires c interface s =
     (case collect (\<lambda>mp. zero_measurement mp num_device_wires s (batch_size c) interface)
             (measurements c) of
        Inl e \<Rightarrow> Inl e
      | Inr r \<Rightarrow> Inr (if length (measurements c) = 1 then r ! 0 else Tuple r))"

text \<open>Lines 298 to 306: the loop over the shots and the value returned.\<close>

definition zero_results :: "nat \<Rightarrow> circuit \<Rightarrow> string \<Rightarrow> error + result" where
  "zero_results num_device_wires c interface =
     (case collect (shot_result num_device_wires c interface) (shots_iter (circuit_shots c)) of
        Inl e \<Rightarrow> Inl e
      | Inr results \<Rightarrow>
          if has_partitioned_shots (circuit_shots c) then Inr (Tuple results)
          else (case results of [] \<Rightarrow> Inl IndexError | r # rest \<Rightarrow> Inr r))"

text \<open>
  \<^verbatim>\<open>NullQubit._simulate\<close>. The file is opened in mode \<^verbatim>\<open>"x"\<close>, which raises when the
  name is taken; the world is returned also when the call raises.
\<close>

definition simulate :: "device \<Rightarrow> circuit \<Rightarrow> string \<Rightarrow> world \<Rightarrow> (error + result) \<times> world" where
  "simulate dev c interface w =
     (let num_device_wires =
            (case dev_wires dev of
               None \<Rightarrow> length (circuit_wires c)
             | Some ws \<Rightarrow> if length ws \<noteq> 0 then length ws else length (circuit_wires c))
      in if track_resources dev
         then (let timestamp = clock w (ticks w);
                   w1 = w\<lparr>ticks := ticks w + 1\<rparr>;
                   resources_fname = RESOURCES_FNAME_PREFIX @ str_int timestamp @ ''.json''
               in if resources_fname \<in> set (map fst (files w1))
                  then (Inl (FileExistsError resources_fname), w1)
                  else (zero_results num_device_wires c interface,
                        w1\<lparr>files := files w1 @
                           [(resources_fname,
                             simulate_resource_use (circuit_wires c) (operations c))]\<rparr>))
         else (zero_results num_device_wires c interface, w))"

text \<open>
  Lines 311 to 323 of \<^verbatim>\<open>NullQubit._derivatives\<close>, given \<^verbatim>\<open>shots\<close> and
  \<^verbatim>\<open>num_device_wires\<close>. \<^verbatim>\<open>math.zeros_like\<close> is defined outside the module and is a
  parameter here.
\<close>

definition zero_derivatives ::
  "(result \<Rightarrow> result) \<Rightarrow> shots_arg \<Rightarrow> nat \<Rightarrow> circuit \<Rightarrow> string \<Rightarrow> error + result" where
  "zero_derivatives zeros_like shots num_device_wires c interface =
     (let n = length (trainable_params c)
      in case collect
                (\<lambda>mp. case zero_measurement mp num_device_wires shots (batch_size c) interface of
                         Inl e \<Rightarrow> Inl e
                       | Inr v \<Rightarrow> Inr (replicate n (zeros_like v)))
                (measurements c) of
           Inl e \<Rightarrow> Inl e
         | Inr ds \<Rightarrow>
             (let ds' = (if n = 1 then map (\<lambda>d. d ! 0) ds else map Tuple ds)
              in Inr (if length ds' = 1 then ds' ! 0 else Tuple ds')))"

text \<open>\<^verbatim>\<open>NullQubit._derivatives\<close>: the shots passed on are the circuit's whole object.\<close>

definition derivatives ::
  "(result \<Rightarrow> result) \<Rightarrow> device \<Rightarrow> circuit \<Rightarrow> string \<Rightarrow> error + result" where
  "derivatives zeros_like dev c interface =
     (let shots = ShotsObj (circuit_shots c);
          num_device_wires =
            (case dev_wires dev of
               None \<Rightarrow> length (circuit_wires c)
             | Some ws \<Rightarrow> if length ws \<noteq> 0 then length ws else length (circuit_wires c))
      in zero_derivatives zeros_like shots num_device_wires c interface)"

text \<open>\<^verbatim>\<open>NullQubit._vjp\<close> and \<^verbatim>\<open>NullQubit._jvp\<close>; without a dtype the zeros are floats.\<close>

definition vjp :: "circuit \<Rightarrow> string \<Rightarrow> result" where
  "vjp c interface =
     (let n = length (trainable_params c);
          res_shape = (case batch_size c of None \<Rightarrow> [n] | Some b \<Rightarrow> [n, b])
      in math_zeros res_shape interface DFloat)"

definition jvp :: "circuit \<Rightarrow> string \<Rightarrow> result" where
  "jvp c interface =
     (let jvps = replicate (length (measurements c)) (math_asarray_float 0 interface)
      in if length jvps = 1 then jvps ! 0 else Tuple jvps)"

subsection \<open>The execution configuration\<close>

text \<open>
  The fields of \<^verbatim>\<open>ExecutionConfig\<close> (defined outside the module) that the device reads;
  \<open>interface_like\<close> is what \<^verbatim>\<open>config.interface.get_like()\<close> returns.
\<close>

record ExecutionConfig =
  gradient_method :: "string option"
  interface_like :: string
  use_device_gradient :: "bool option"
  use_device_jacobian_product :: "bool option"
  grad_on_execution :: "bool option"

text \<open>\<^verbatim>\<open>_interface\<close>.\<close>

definition interface_of :: "ExecutionConfig \<Rightarrow> string" where
  "interface_of config =
     (if gradient_method config = Some ''backprop'' then interface_like config else ''numpy'')"

text \<open>The dictionary \<^verbatim>\<open>updated_values\<close>: \<open>None\<close> is an absent key.\<close>

record updated_values =
  uv_gradient_method :: "string option"
  uv_use_device_gradient :: "bool option"
  uv_use_device_jacobian_product :: "bool option"
  uv_grad_on_execution :: "bool option"

text \<open>\<^verbatim>\<open>dataclasses.replace\<close>: a new object, the given fields overridden.\<close>

definition replace :: "ExecutionConfig \<Rightarrow> updated_values \<Rightarrow> ExecutionConfig" where
  "replace config uv =
     config\<lparr>
       gradient_method :=
         (case uv_gradient_method uv of None \<Rightarrow> gradient_method config | Some g \<Rightarrow> Some g),
       use_device_gradient :=
         (case uv_use_device_gradient uv of
            None \<Rightarrow> use_device_gradient config | Some b \<Rightarrow> Some b),
       use_device_jacobian_product :=
         (case uv_use_device_jacobian_product uv of
            None \<Rightarrow> use_device_jacobian_product config | Some b \<Rightarrow> Some b),
       grad_on_execution :=
         (case uv_grad_on_execution uv of
            None \<Rightarrow> grad_on_execution config | Some b \<Rightarrow> Some b)\<rparr>"

text \<open>Lines 369 to 384 of \<^verbatim>\<open>NullQubit.preprocess\<close>: the overrides.\<close>

definition preprocess_updated_values :: "ExecutionConfig \<Rightarrow> updated_values" where
  "preprocess_updated_values execution_config =
     \<lparr> uv_gradient_method =
         (if gradient_method execution_config \<in> set [Some ''best'', Some ''adjoint'']
          then Some ''device'' else None),
       uv_use_device_gradient =
         (if use_device_gradient execution_config = None
          then Some (gradient_method execution_config \<in>
                 set [Some ''best'', Some ''device'', Some ''adjoint'', Some ''backprop''])
          else None),
       uv_use_device_jacobian_product =
         (if use_device_jacobian_product execution_config = None
          then Some (gradient_method execution_config = Some ''device'') else None),
       uv_grad_on_execution =
         (if grad_on_execution execution_config = None
          then Some (gradient_method execution_config = Some ''device'') else None) \<rparr>"

text \<open>
  The configuration half of \<^verbatim>\<open>NullQubit.preprocess\<close> over an object store: the store is
  the list of the configuration objects alive, a reference is an index into it, and
  \<^verbatim>\<open>replace\<close> allocates the object it returns. The transform program, the other half of
  the pair returned, is built outside the module and is left out. A dangling reference,
  which Python cannot produce, gives \<open>None\<close>.
\<close>

definition preprocess :: "ExecutionConfig list \<Rightarrow> nat \<Rightarrow> (ExecutionConfig list \<times> nat) option" where
  "preprocess heap r =
     (if r < length heap
      then (let execution_config = heap ! r;
                updated_values = preprocess_updated_values execution_config
            in Some (heap @ [replace execution_config updated_values], length heap))
      else None)"

subsection \<open>The public entry points\<close>

fun simulate_all ::
  "device \<Rightarrow> string \<Rightarrow> circuit list \<Rightarrow> world \<Rightarrow> (error + result list) \<times> world" where
  "simulate_all dev interface [] w = (Inr [], w)"
| "simulate_all dev interface (c # cs) w =
     (case simulate dev c interface w of
        (Inl e, w') \<Rightarrow> (Inl e, w')
      | (Inr r, w') \<Rightarrow>
          (case simulate_all dev interface cs w' of
             (Inl e, w'') \<Rightarrow> (Inl e, w'')
           | (Inr rs, w'') \<Rightarrow> (Inr (r # rs), w'')))"

text \<open>\<^verbatim>\<open>NullQubit.execute\<close>: the tuple of the per-circuit results.\<close>

definition execute ::
  "device \<Rightarrow> circuit list \<Rightarrow> ExecutionConfig \<Rightarrow> world \<Rightarrow> (error + result) \<times> world" where
  "execute dev circuits execution_config w =
     (case simulate_all dev (interface_of execution_config) circuits w of
        (Inl e, w') \<Rightarrow> (Inl e, w')
      | (Inr rs, w') \<Rightarrow> (Inr (Tuple rs), w'))"

text \<open>\<^verbatim>\<open>compute_vjp\<close> and \<^verbatim>\<open>compute_jvp\<close>; the cotangents and tangents are any value.\<close>

definition compute_vjp :: "circuit list \<Rightarrow> 'a \<Rightarrow> ExecutionConfig \<Rightarrow> result" where
  "compute_vjp circuits cotangents execution_config =
     Tuple (map (\<lambda>c. vjp c (interface_of execution_config)) circuits)"

definition compute_jvp :: "circuit list \<Rightarrow> 'a \<Rightarrow> ExecutionConfig \<Rightarrow> result" where
  "compute_jvp circuits tangents execution_config =
     Tuple (map (\<lambda>c. jvp c (interface_of execution_config)) circuits)"

section \<open>Measures used in the statements\<close>

text \<open>
  The control wires summed over the modifier layers of an operation, the number of its
  adjoint layers, and the operation the layers wrap. They follow the structure of the
  operation, not the loop.
\<close>

fun total_controls :: "operation \<Rightarrow> nat" where
  "total_controls (Controlled n cw b) = length cw + total_controls b"
| "total_controls (ControlledOp n cw b) = length cw + total_controls b"
| "total_controls (Adjoint n b) = total_controls b"
| "total_controls (Composite n b) = 0"
| "total_controls (Gate n) = 0"

fun adjoint_layers :: "operation \<Rightarrow> nat" where
  "adjoint_layers (Controlled n cw b) = adjoint_layers b"
| "adjoint_layers (ControlledOp n cw b) = adjoint_layers b"
| "adjoint_layers (Adjoint n b) = Suc (adjoint_layers b)"
| "adjoint_layers (Composite n b) = 0"
| "adjoint_layers (Gate n) = 0"

fun innermost :: "operation \<Rightarrow> operation" where
  "innermost (Controlled n cw b) = innermost b"
| "innermost (ControlledOp n cw b) = innermost b"
| "innermost (Adjoint n b) = innermost b"
| "innermost (Composite n b) = Composite n b"
| "innermost (Gate n) = Gate n"

text \<open>
  The effective device wire count in the words of the specification: the number of wires
  the device was constructed with when that is non-empty, otherwise the circuit's own wire
  count.
\<close>

definition effective_wire_count :: "device \<Rightarrow> circuit \<Rightarrow> nat" where
  "effective_wire_count dev c =
     (case dev_wires dev of
        None \<Rightarrow> length (circuit_wires c)
      | Some [] \<Rightarrow> length (circuit_wires c)
      | Some (x # xs) \<Rightarrow> Suc (length xs))"

text \<open>The integer a string of binary digits denotes, read from the accumulator onwards.\<close>

fun bin_val :: "string \<Rightarrow> nat \<Rightarrow> nat" where
  "bin_val [] acc = acc"
| "bin_val (c # cs) acc = bin_val cs (2 * acc + (if c = CHR ''1'' then 1 else 0))"

definition hist_count :: "histogram \<Rightarrow> string \<Rightarrow> nat" where
  "hist_count h k = (case map_of h k of None \<Rightarrow> 0 | Some v \<Rightarrow> v)"

text \<open>The circuit of the examples: an adjoint around a control over two wires around X.\<close>

definition adj_ctrl_x :: operation where
  "adj_ctrl_x =
     Adjoint ''Adjoint(C(PauliX))'' (Controlled ''C(PauliX)'' [IntWire 1, IntWire 2] (Gate ''X''))"

text \<open>
  A circuit with plain, controlled, adjoint and composite operations and two barriers, one
  of them under an adjoint; the last control acts on ten wires.
\<close>

definition ten_wires :: "wire list" where
  "ten_wires = map IntWire [1, 2, 3, 4, 5, 6, 7, 8, 9, 10]"

definition mixed_operations :: "operation list" where
  "mixed_operations =
     [Gate ''X'',
      Controlled ''C(PauliX)'' [IntWire 1, IntWire 2] (Gate ''X''),
      Adjoint ''Adjoint(S)'' (Gate ''S''),
      Gate ''Barrier'',
      Composite ''CNOT'' (Gate ''PauliX''),
      ControlledOp ''C(Hadamard)'' [IntWire 1] (Gate ''Hadamard''),
      Gate ''X'',
      Controlled ''C(Adjoint(T))'' ten_wires (Adjoint ''Adjoint(T)'' (Gate ''T'')),
      Adjoint ''Adjoint(Barrier)'' (Gate ''Barrier'')]"

text \<open>
  A configuration as the default one with the method "best"; an expectation value, a
  probability, a classical shadow on two wires (its shape is \<open>(2, shots, 2)\<close>, and the
  method raises without shots) and two counts measurements (one of the observable
  \<open>Z \<otimes> Z\<close>, eigenvalues \<open>1, -1, -1, 1\<close>, one of the computational basis); a circuit with
  three trainable parameters.
\<close>

definition best_config :: ExecutionConfig where
  "best_config = \<lparr> gradient_method = Some ''best'', interface_like = ''numpy'',
      use_device_gradient = None, use_device_jacobian_product = None, grad_on_execution = None \<rparr>"

definition expval_mp :: measurement where
  "expval_mp = \<lparr> mp_kind = OtherMP, mp_wires = [IntWire 0], mp_obs_is_none = False,
     mp_mv_is_measurement_value = False, mp_all_outcomes = False, mp_eigvals = [1, -1],
     mp_shape = (\<lambda>s n. Inr []), mp_numeric_type = DFloat \<rparr>"

definition three_param_circuit :: circuit where
  "three_param_circuit = \<lparr> operations = [Gate ''Rot''], measurements = [expval_mp],
     circuit_wires = [IntWire 0], circuit_shots = NoShots, batch_size = None,
     trainable_params = [0, 1, 2] \<rparr>"

definition probs_mp :: measurement where
  "probs_mp = \<lparr> mp_kind = ProbabilityMP, mp_wires = [], mp_obs_is_none = True,
     mp_mv_is_measurement_value = False, mp_all_outcomes = False, mp_eigvals = [],
     mp_shape = (\<lambda>s n. Inr [IntDim (2 ^ n)]), mp_numeric_type = DFloat \<rparr>"

definition shadow_mp :: measurement where
  "shadow_mp = \<lparr> mp_kind = ClassicalShadowMP, mp_wires = [IntWire 0, IntWire 1],
     mp_obs_is_none = True, mp_mv_is_measurement_value = False, mp_all_outcomes = False,
     mp_eigvals = [],
     mp_shape =
       (\<lambda>s n. case s of
                 NoneShots \<Rightarrow> Inl (MeasurementShapeError
                   ''Shots must be specified to obtain the shape of a classical shadow measurement process.'')
               | IntShots k \<Rightarrow> Inr [IntDim 2, IntDim k, IntDim 2]
               | ShotsObj sh \<Rightarrow> Inr [IntDim 2, ObjDim sh, IntDim 2]),
     mp_numeric_type = DInt \<rparr>"

definition zz_counts_mp :: measurement where
  "zz_counts_mp = \<lparr> mp_kind = CountsMP, mp_wires = [IntWire 0, IntWire 1],
     mp_obs_is_none = False, mp_mv_is_measurement_value = False, mp_all_outcomes = True,
     mp_eigvals = [1, -1, -1, 1],
     mp_shape = (\<lambda>s n. Inr []), mp_numeric_type = DInt \<rparr>"

definition counts_mp :: measurement where
  "counts_mp = \<lparr> mp_kind = CountsMP, mp_wires = [], mp_obs_is_none = True,
     mp_mv_is_measurement_value = False, mp_all_outcomes = True, mp_eigvals = [],
     mp_shape = (\<lambda>s n. Inr []), mp_numeric_type = DInt \<rparr>"

text \<open>
  The name of the resource file a run started in world \<open>w\<close> creates, and the test for the
  error raised when a name is taken.
\<close>

definition resources_fname :: "world \<Rightarrow> string" where
  "resources_fname w = RESOURCES_FNAME_PREFIX @ str_int (clock w (ticks w)) @ ''.json''"

definition is_file_exists :: "error + 'a \<Rightarrow> bool" where
  "is_file_exists r = (case r of Inl (FileExistsError f) \<Rightarrow> True | _ \<Rightarrow> False)"

text \<open>
  Devices with and without wires and with resource tracking; circuits on one and two
  wires, one of them with two measurements and partitioned shots; a world whose clock
  advances by 256 ns per reading, and the world the first tracked run of \<open>bell_circuit\<close>
  leaves behind.
\<close>

definition two_wire_device :: device where
  "two_wire_device = \<lparr> dev_wires = Some [IntWire 0, IntWire 1], track_resources = False \<rparr>"

definition wireless_device :: device where
  "wireless_device = \<lparr> dev_wires = None, track_resources = False \<rparr>"

definition tracking_device :: device where
  "tracking_device = \<lparr> dev_wires = None, track_resources = True \<rparr>"

definition bell_circuit :: circuit where
  "bell_circuit = \<lparr> operations = [Gate ''Hadamard'', Composite ''CNOT'' (Gate ''PauliX'')],
     measurements = [probs_mp], circuit_wires = [IntWire 0, IntWire 1],
     circuit_shots = NoShots, batch_size = None, trainable_params = [] \<rparr>"

definition one_wire_circuit :: circuit where
  "one_wire_circuit = \<lparr> operations = [Gate ''Hadamard''],
     measurements = [probs_mp], circuit_wires = [IntWire 0],
     circuit_shots = NoShots, batch_size = None, trainable_params = [] \<rparr>"

definition partitioned_circuit :: circuit where
  "partitioned_circuit = \<lparr> operations = [Gate ''Hadamard'', Composite ''CNOT'' (Gate ''PauliX'')],
     measurements = [expval_mp, probs_mp], circuit_wires = [IntWire 0, IntWire 1],
     circuit_shots = PartitionedShots [10, 20], batch_size = None, trainable_params = [] \<rparr>"

definition morning :: world where
  "morning = \<lparr> clock = (\<lambda>n. 1730678400000000000 + 256 * int n), ticks = 0, files = [] \<rparr>"



definition zeros_like_array :: "result \<Rightarrow> result" where
  "zeros_like_array r =
     (case r of Arr like dt shape xs \<Rightarrow> Arr like dt shape (replicate (length xs) 0) | _ \<Rightarrow> r)"

definition one_param_circuit :: circuit where
  "one_param_circuit = one_wire_circuit\<lparr> trainable_params := [0] \<rparr>"

definition two_param_circuit :: circuit where
  "two_param_circuit =
     one_wire_circuit\<lparr> measurements := [expval_mp, probs_mp], trainable_params := [0, 1] \<rparr>"

definition shadow_circuit :: circuit where
  "shadow_circuit = \<lparr> operations = [Gate ''Hadamard''], measurements = [shadow_mp],
     circuit_wires = [IntWire 0, IntWire 1], circuit_shots = SingleShots 10,
     batch_size = None, trainable_params = [0] \<rparr>"

section \<open>The resource accountant\<close>

lemma unwrap_eq:
  "unwrap c a op =
     (c + total_controls op, (if even (adjoint_layers op) then a else \<not> a), innermost op)"
  by (induction c a op rule: unwrap.induct) auto

lemma gate_name_eq:
  "gate_name op =
     (if op_name (innermost op) = ''Barrier'' then None
      else Some (compose_name (total_controls op) (odd (adjoint_layers op))
                   (op_name (innermost op))))"
  by (simp add: gate_name_def unwrap_eq)

lemma incr_sum: "sum_list (map snd (incr k h)) = Suc (sum_list (map snd h))"
  by (induction k h rule: incr.induct) auto

lemma incr_keys: "fst ` set (incr k h) = insert k (fst ` set h)"
  by (induction k h rule: incr.induct) auto

lemma incr_distinct: "distinct (map fst h) \<Longrightarrow> distinct (map fst (incr k h))"
  by (induction k h rule: incr.induct) (auto simp: incr_keys)

lemma incr_count:
  "hist_count (incr k h) k' = (if k' = k then Suc (hist_count h k') else hist_count h k')"
  by (induction k h rule: incr.induct) (auto simp: hist_count_def)

lemma count_gates_sum:
  "sum_list (map snd (count_gates ops h)) =
     sum_list (map snd h) + length (filter (\<lambda>op. gate_name op \<noteq> None) ops)"
  by (induction ops arbitrary: h) (auto simp: incr_sum split: option.splits)

lemma count_gates_keys:
  "fst ` set (count_gates ops h) = fst ` set h \<union> {k. \<exists>op \<in> set ops. gate_name op = Some k}"
  by (induction ops arbitrary: h) (auto simp: incr_keys split: option.splits)

lemma count_gates_distinct:
  "distinct (map fst h) \<Longrightarrow> distinct (map fst (count_gates ops h))"
  by (induction ops arbitrary: h) (auto simp: incr_distinct split: option.splits)

lemma count_gates_count:
  "hist_count (count_gates ops h) k =
     hist_count h k + length (filter (\<lambda>op. gate_name op = Some k) ops)"
  by (induction ops arbitrary: h) (auto simp: incr_count split: option.splits)

lemma count_gates_lookup:
  "map_of (count_gates ops []) k =
     (if length (filter (\<lambda>op. gate_name op = Some k) ops) = 0 then None
      else Some (length (filter (\<lambda>op. gate_name op = Some k) ops)))"
proof (cases "\<exists>op \<in> set ops. gate_name op = Some k")
  case False
  then have "k \<notin> fst ` set (count_gates ops [])"
    by (simp add: count_gates_keys)
  then have "map_of (count_gates ops []) k = None"
    by (simp add: map_of_eq_None_iff)
  moreover from False have "filter (\<lambda>op. gate_name op = Some k) ops = []"
    by (simp add: filter_empty_conv)
  ultimately show ?thesis by simp
next
  case True
  then have "k \<in> fst ` set (count_gates ops [])"
    by (simp add: count_gates_keys)
  then obtain v where v: "map_of (count_gates ops []) k = Some v"
    by (metis map_of_eq_None_iff not_Some_eq)
  have "hist_count (count_gates ops []) k = length (filter (\<lambda>op. gate_name op = Some k) ops)"
    using count_gates_count [of ops "[]" k] by (simp add: hist_count_def)
  with v have "v = length (filter (\<lambda>op. gate_name op = Some k) ops)"
    by (simp add: hist_count_def)
  moreover from True have "filter (\<lambda>op. gate_name op = Some k) ops \<noteq> []"
    by (simp add: filter_empty_conv)
  ultimately show ?thesis using v by simp
qed

lemma count_gates_append: "count_gates (xs @ ys) h = count_gates ys (count_gates xs h)"
  by (induction xs arbitrary: h) (auto split: option.splits)

lemma count_gates_skip:
  "gate_name b = None \<Longrightarrow> count_gates (xs @ b # ys) h = count_gates (xs @ ys) h"
  by (simp add: count_gates_append)

text \<open>
  C1, as the specification states it, fails: for the gate X under a control modifier over
  two wires, wrapped in an adjoint modifier, the histogram is not \<^verbatim>\<open>{"Adj(2C(X))": 1}\<close>.
\<close>

theorem adjoint_outermost_counterexample:
  "gate_types (simulate_resource_use [IntWire 0, IntWire 1, IntWire 2] [adj_ctrl_x]) \<noteq>
     [(''Adj(2C(X))'', 1)]"
  by (simp add: adj_ctrl_x_def simulate_resource_use_def gate_name_def compose_name_def
      str_nat.simps digit_char_def)

text \<open>
  C1, amended: for every operation that is a plain gate named \<open>N\<close>, other than the barrier,
  wrapped in control-modifier layers totalling \<open>k > 0\<close> control wires and in one adjoint
  modifier, in any order of the layers, the accountant records the name with the control
  form outermost around the adjoint wrapper, \<^verbatim>\<open>"kC(Adj(N))"\<close>, the prefix \<open>k\<close> left out when
  \<open>k = 1\<close>; a circuit of that one operation has the histogram with that single entry, of
  count 1.
\<close>

theorem control_outermost_name:
  assumes "innermost op = Gate N" and "N \<noteq> ''Barrier''"
    and "total_controls op = k" and "0 < k" and "adjoint_layers op = 1"
  shows "gate_types (simulate_resource_use ws [op]) =
           [((if k = 1 then [] else str_nat k) @ ''C(Adj('' @ N @ ''))'', 1)]"
  using assms by (auto simp: simulate_resource_use_def gate_name_eq compose_name_def)

theorem control_outermost_name_witness:
  "innermost adj_ctrl_x = Gate ''X'' \<and> ''X'' \<noteq> ''Barrier'' \<and>
   total_controls adj_ctrl_x = 2 \<and> (0::nat) < 2 \<and> adjoint_layers adj_ctrl_x = 1 \<and>
   gate_types (simulate_resource_use [IntWire 0, IntWire 1, IntWire 2] [adj_ctrl_x]) =
     [(''2C(Adj(X))'', 1)]"
  using control_outermost_name
    [of adj_ctrl_x "''X''" 2 "[IntWire 0, IntWire 1, IntWire 2]"]
  by (simp add: adj_ctrl_x_def str_nat.simps digit_char_def)

lemma str_nat_10: "str_nat 10 = ''10''"
  by (simp add: str_nat.simps digit_char_def)

lemma str_nat_2: "str_nat (Suc (Suc 0)) = ''2''"
  by (simp add: str_nat.simps digit_char_def)

lemma length_ten_wires: "length ten_wires = 10"
  by (simp add: ten_wires_def)

lemma mixed_report:
  "simulate_resource_use [IntWire 0, IntWire 1] mixed_operations =
     \<lparr> num_wires = 2, num_gates = 7,
       gate_types = [(''X'', 2), (''2C(X)'', 1), (''Adj(S)'', 1), (''CNOT'', 1),
                     (''C(Hadamard)'', 1), (''10C(Adj(T))'', 1)] \<rparr>"
  by (simp add: simulate_resource_use_def mixed_operations_def gate_name_def compose_name_def
      length_ten_wires str_nat_10 str_nat_2)

text \<open>
  C8: for every circuit, the report has \<open>num_wires\<close> equal to the size of the circuit's wire
  set, \<open>num_gates\<close> equal to the sum of the histogram's values (which is the number of
  operations that are not barriers), and \<open>gate_types\<close> the histogram keyed by composed
  names: each key once, mapped to the number of operations recorded under it, where the
  name recorded for an operation whose layers wrap \<open>nm\<close>, with \<open>k\<close> control wires in
  total, is \<open>nm\<close>, wrapped in \<^verbatim>\<open>Adj(...)\<close> when the number of adjoint layers is odd, and
  then in \<^verbatim>\<open>C(...)\<close> when \<open>k = 1\<close> and in \<^verbatim>\<open>kC(...)\<close> when \<open>k > 1\<close>. A circuit of one
  plain gate named X gives exactly
  \<^verbatim>\<open>{num_wires: <wire set size>, num_gates: 1, gate_types: {"X": 1}}\<close>, and a barrier
  anywhere in the circuit, plain or under modifier layers, leaves the report as it is
  without it.
\<close>

theorem resource_report_contents:
  "num_wires (simulate_resource_use ws ops) = length ws \<and>
   (distinct ws \<longrightarrow> num_wires (simulate_resource_use ws ops) = card (set ws)) \<and>
   num_gates (simulate_resource_use ws ops) =
     sum_list (map snd (gate_types (simulate_resource_use ws ops))) \<and>
   num_gates (simulate_resource_use ws ops) =
     length (filter (\<lambda>op. gate_name op \<noteq> None) ops) \<and>
   distinct (map fst (gate_types (simulate_resource_use ws ops))) \<and>
   (\<forall>k. map_of (gate_types (simulate_resource_use ws ops)) k =
      (if length (filter (\<lambda>op. gate_name op = Some k) ops) = 0 then None
       else Some (length (filter (\<lambda>op. gate_name op = Some k) ops)))) \<and>
   gate_name op =
     (let nm = op_name (innermost op);
          k = total_controls op;
          inner = (if odd (adjoint_layers op) then ''Adj('' @ nm @ '')'' else nm)
      in if nm = ''Barrier'' then None
         else if k = 0 then Some inner
         else if k = 1 then Some (''C('' @ inner @ '')'')
         else Some (str_nat k @ ''C('' @ inner @ '')'')) \<and>
   simulate_resource_use ws [Gate ''X''] =
     \<lparr> num_wires = length ws, num_gates = 1, gate_types = [(''X'', 1)] \<rparr> \<and>
   simulate_resource_use ws (ops1 @ Gate ''Barrier'' # ops2) =
     simulate_resource_use ws (ops1 @ ops2) \<and>
   (op_name (innermost b) = ''Barrier'' \<longrightarrow>
      simulate_resource_use ws (ops1 @ b # ops2) = simulate_resource_use ws (ops1 @ ops2))"
proof -
  have b: "gate_name (Gate ''Barrier'') = None"
    by (simp add: gate_name_def)
  have w: "count_gates (ops1 @ b # ops2) [] = count_gates (ops1 @ ops2) []"
    if "op_name (innermost b) = ''Barrier''"
    using that by (simp add: count_gates_skip gate_name_eq)
  have x: "gate_name (Gate ''X'') = Some ''X''"
    by (simp add: gate_name_def compose_name_def)
  have g: "gate_name op =
     (let nm = op_name (innermost op);
          k = total_controls op;
          inner = (if odd (adjoint_layers op) then ''Adj('' @ nm @ '')'' else nm)
      in if nm = ''Barrier'' then None
         else if k = 0 then Some inner
         else if k = 1 then Some (''C('' @ inner @ '')'')
         else Some (str_nat k @ ''C('' @ inner @ '')''))"
    by (simp add: gate_name_eq compose_name_def Let_def)
  have r: "num_wires (simulate_resource_use ws ops) = length ws \<and>
   (distinct ws \<longrightarrow> num_wires (simulate_resource_use ws ops) = card (set ws)) \<and>
   num_gates (simulate_resource_use ws ops) =
     sum_list (map snd (gate_types (simulate_resource_use ws ops))) \<and>
   num_gates (simulate_resource_use ws ops) =
     length (filter (\<lambda>op. gate_name op \<noteq> None) ops) \<and>
   distinct (map fst (gate_types (simulate_resource_use ws ops))) \<and>
   (\<forall>k. map_of (gate_types (simulate_resource_use ws ops)) k =
      (if length (filter (\<lambda>op. gate_name op = Some k) ops) = 0 then None
       else Some (length (filter (\<lambda>op. gate_name op = Some k) ops)))) \<and>
   simulate_resource_use ws [Gate ''X''] =
     \<lparr> num_wires = length ws, num_gates = 1, gate_types = [(''X'', 1)] \<rparr> \<and>
   simulate_resource_use ws (ops1 @ Gate ''Barrier'' # ops2) =
     simulate_resource_use ws (ops1 @ ops2) \<and>
   (op_name (innermost b) = ''Barrier'' \<longrightarrow>
      simulate_resource_use ws (ops1 @ b # ops2) = simulate_resource_use ws (ops1 @ ops2))"
    by (simp add: simulate_resource_use_def Let_def count_gates_sum count_gates_distinct
        count_gates_lookup count_gates_skip [OF b] x distinct_card w)
  from r g show ?thesis by blast
qed

theorem resource_report_contents_witness:
  "distinct [IntWire 0, IntWire 1] \<and>
   simulate_resource_use [IntWire 0, IntWire 1] mixed_operations =
     \<lparr> num_wires = 2, num_gates = 7,
       gate_types = [(''X'', 2), (''2C(X)'', 1), (''Adj(S)'', 1), (''CNOT'', 1),
                     (''C(Hadamard)'', 1), (''10C(Adj(T))'', 1)] \<rparr> \<and>
   num_wires (simulate_resource_use [IntWire 0, IntWire 1] mixed_operations) =
     card (set [IntWire 0, IntWire 1]) \<and>
   op_name (innermost (Adjoint ''Adjoint(Barrier)'' (Gate ''Barrier''))) = ''Barrier'' \<and>
   gate_name (Controlled ''C(Adjoint(T))'' ten_wires (Adjoint ''Adjoint(T)'' (Gate ''T''))) =
     Some ''10C(Adj(T))''"
proof -
  have d: "distinct [IntWire 0, IntWire 1]"
    by simp
  from resource_report_contents
    [of "[IntWire 0, IntWire 1]" mixed_operations
        "Controlled ''C(Adjoint(T))'' ten_wires (Adjoint ''Adjoint(T)'' (Gate ''T''))"
        "[Gate ''X'']" "[Gate ''X'']" "Adjoint ''Adjoint(Barrier)'' (Gate ''Barrier'')"]
  have "num_wires (simulate_resource_use [IntWire 0, IntWire 1] mixed_operations) =
          card (set [IntWire 0, IntWire 1])"
    and "gate_name (Controlled ''C(Adjoint(T))'' ten_wires (Adjoint ''Adjoint(T)'' (Gate ''T''))) =
          Some ''10C(Adj(T))''"
    using d by (simp_all add: length_ten_wires str_nat_10)
  with d mixed_report show ?thesis by simp
qed

section \<open>The execution configuration\<close>

text \<open>
  C2, as the specification states it, fails: from the default fields and the method "best"
  the configuration returned has \<open>use_device_jacobian_product\<close> and
  \<open>grad_on_execution\<close> false, not true.
\<close>

theorem preprocess_best_counterexample:
  "preprocess [best_config] 0 =
     Some ([best_config,
            \<lparr> gradient_method = Some ''device'', interface_like = ''numpy'',
              use_device_gradient = Some True, use_device_jacobian_product = Some False,
              grad_on_execution = Some False \<rparr>], 1) \<and>
   use_device_jacobian_product
     (fst (the (preprocess [best_config] 0)) ! snd (the (preprocess [best_config] 0))) \<noteq> Some True"
  by (simp add: preprocess_def best_config_def replace_def preprocess_updated_values_def)

text \<open>
  C2, amended: for every configuration whose gradient method is "best" or "adjoint" and
  whose \<open>use_device_gradient\<close>, \<open>use_device_jacobian_product\<close> and
  \<open>grad_on_execution\<close> are unset, \<open>preprocess\<close> returns a configuration whose gradient
  method is "device" and, the three booleans being derived from the method the caller gave
  (not from the forced one), whose \<open>use_device_gradient\<close> is true and whose
  \<open>use_device_jacobian_product\<close> and \<open>grad_on_execution\<close> are false; every other field
  is the caller's; the configuration returned is a new object, and the caller's object, like
  every object alive before the call, is as it was.
\<close>

theorem preprocess_forces_device:
  assumes "r < length heap"
    and "gradient_method (heap ! r) = Some ''best'' \<or> gradient_method (heap ! r) = Some ''adjoint''"
    and "use_device_gradient (heap ! r) = None"
    and "use_device_jacobian_product (heap ! r) = None"
    and "grad_on_execution (heap ! r) = None"
  shows "\<exists>heap' r'. preprocess heap r = Some (heap', r') \<and> r' \<noteq> r \<and> r' = length heap \<and>
           take (length heap) heap' = heap \<and> heap' ! r = heap ! r \<and>
           heap' ! r' = (heap ! r)\<lparr> gradient_method := Some ''device'',
              use_device_gradient := Some True, use_device_jacobian_product := Some False,
              grad_on_execution := Some False \<rparr>"
  using assms
  by (auto simp: preprocess_def replace_def preprocess_updated_values_def Let_def nth_append)

theorem preprocess_forces_device_witness:
  "(0::nat) < length [best_config] \<and> gradient_method ([best_config] ! 0) = Some ''best'' \<and>
   use_device_gradient ([best_config] ! 0) = None \<and>
   use_device_jacobian_product ([best_config] ! 0) = None \<and>
   grad_on_execution ([best_config] ! 0) = None \<and>
   (\<exists>heap' r'. preprocess [best_config] 0 = Some (heap', r') \<and> r' \<noteq> 0 \<and>
      heap' ! 0 = best_config \<and>
      gradient_method (heap' ! r') = Some ''device'' \<and>
      use_device_gradient (heap' ! r') = Some True \<and>
      use_device_jacobian_product (heap' ! r') = Some False \<and>
      grad_on_execution (heap' ! r') = Some False)"
  using preprocess_forces_device [of 0 "[best_config]"]
  by (auto simp: best_config_def)

section \<open>Vector-Jacobian and Jacobian-vector products\<close>

text \<open>
  C3, as the specification states it, fails for \<open>compute_jvp\<close>: for a circuit with three
  trainable parameters, one measurement and no batch size it returns a scalar zero, not a
  zero array of shape \<open>(3,)\<close>.
\<close>

theorem jvp_shape_counterexample:
  "compute_jvp [three_param_circuit] [1::real, 1, 1] best_config = Tuple [Arr ''numpy'' DFloat [] [0]] \<and>
   compute_jvp [three_param_circuit] [1::real, 1, 1] best_config \<noteq> Tuple [math_zeros [3] ''numpy'' DFloat]"
  by (simp add: compute_jvp_def jvp_def three_param_circuit_def interface_of_def best_config_def
      math_asarray_float_def math_zeros_def)

text \<open>
  C3, amended: for every circuit with \<open>n\<close> trainable parameters and batch size \<open>b\<close>,
  \<open>compute_vjp\<close> returns, per circuit, an all-zero array of shape \<open>(n,)\<close> when \<open>b\<close> is
  \<^verbatim>\<open>None\<close> and \<open>(n, b)\<close> otherwise; \<open>compute_jvp\<close> returns, per circuit, one scalar zero
  per measurement (the scalar itself when there is exactly one measurement), whatever \<open>n\<close>
  and \<open>b\<close>; neither value depends on the cotangents or tangents supplied.
\<close>

theorem vjp_jvp_zero_values:
  "compute_vjp circuits cotangents config =
     Tuple (map (\<lambda>c. case batch_size c of
                        None \<Rightarrow> Arr (interface_of config) DFloat [length (trainable_params c)]
                                  (replicate (length (trainable_params c)) 0)
                      | Some b \<Rightarrow> Arr (interface_of config) DFloat [length (trainable_params c), b]
                                  (replicate (length (trainable_params c) * b) 0)) circuits) \<and>
   compute_vjp circuits cotangents config = compute_vjp circuits cotangents' config \<and>
   compute_jvp circuits tangents config =
     Tuple (map (\<lambda>c. if length (measurements c) = 1 then Arr (interface_of config) DFloat [] [0]
                      else Tuple (replicate (length (measurements c))
                                    (Arr (interface_of config) DFloat [] [0]))) circuits) \<and>
   compute_jvp circuits tangents config = compute_jvp circuits tangents' config"
  by (auto simp: compute_vjp_def compute_jvp_def vjp_def jvp_def math_zeros_def
      math_asarray_float_def Let_def split: option.splits)

theorem vjp_jvp_zero_values_witness:
  "compute_vjp [three_param_circuit, three_param_circuit\<lparr>batch_size := Some 2\<rparr>]
     [1::real, 1, 1] best_config =
     Tuple [Arr ''numpy'' DFloat [3] [0, 0, 0], Arr ''numpy'' DFloat [3, 2] [0, 0, 0, 0, 0, 0]] \<and>
   compute_jvp [three_param_circuit, three_param_circuit\<lparr>measurements := []\<rparr>]
     [1::real, 1, 1] best_config = Tuple [Arr ''numpy'' DFloat [] [0], Tuple []]"
  using vjp_jvp_zero_values
    [of "[three_param_circuit, three_param_circuit\<lparr>batch_size := Some 2\<rparr>]"
        "[1::real, 1, 1]" best_config "[1::real, 1, 1]"
        "[1::real, 1, 1]" "[1::real, 1, 1]"]
    vjp_jvp_zero_values
    [of "[three_param_circuit, three_param_circuit\<lparr>measurements := []\<rparr>]"
        "[1::real, 1, 1]" best_config "[1::real, 1, 1]"
        "[1::real, 1, 1]" "[1::real, 1, 1]"]
  by (simp add: three_param_circuit_def best_config_def interface_of_def numeral_eq_Suc)

section \<open>The producers of zero results\<close>

text \<open>
  Counts without observable: the all-zero string of the device wire count holds the
  shots and, when all outcomes are requested, the strings of the integers 1 to
  \<open>2 ^ nw - 1\<close> follow in that order, each of that length, with 0. Counts of an
  observable whose smallest eigenvalue is not repeated: that eigenvalue holds the shots,
  and the others hold 0 when all outcomes are requested and are absent otherwise.
\<close>

lemma bin_val_append: "bin_val (xs @ ys) acc = bin_val ys (bin_val xs acc)"
  by (induction xs arbitrary: acc) auto

lemma bin_val_zeros: "bin_val (replicate k CHR ''0'') 0 = 0"
  by (induction k) auto

lemma digit_char_bit: "d < 2 \<Longrightarrow> (digit_char d = CHR ''1'') = (d = 1)"
  by (auto simp: digit_char_def less_2_cases_iff)

lemma bin_val_bin_nat: "bin_val (bin_nat n) 0 = n"
proof (induction n rule: bin_nat.induct)
  case (1 n)
  show ?case
  proof (cases "n < 2")
    case True
    then show ?thesis
      by (subst bin_nat.simps) (auto simp: digit_char_bit)
  next
    case False
    have "n mod 2 < 2" by simp
    then have d: "(digit_char (n mod 2) = CHR ''1'') = (n mod 2 = 1)"
      by (rule digit_char_bit)
    from False 1 have "bin_val (bin_nat (n div 2)) 0 = n div 2" by simp
    with False have "bin_val (bin_nat n) 0 = 2 * (n div 2) + (if n mod 2 = 1 then 1 else 0)"
      by (subst bin_nat.simps) (simp add: bin_val_append d)
    also have "\<dots> = n" by presburger
    finally show ?thesis .
  qed
qed

lemma bin_val_format_bin: "bin_val (format_bin width x) 0 = x"
  by (simp add: format_bin_def Let_def bin_val_append bin_val_zeros bin_val_bin_nat)

lemma length_bin_nat: "0 < w \<Longrightarrow> n < 2 ^ w \<Longrightarrow> length (bin_nat n) \<le> w"
proof (induction n arbitrary: w rule: bin_nat.induct)
  case (1 n)
  show ?case
  proof (cases "n < 2")
    case True
    with "1.prems" show ?thesis by (subst bin_nat.simps) simp
  next
    case False
    from "1.prems" obtain w' where w1: "w = Suc w'"
      by (cases w) auto
    have "0 < w'"
    proof (rule ccontr)
      assume "\<not> 0 < w'"
      with w1 "1.prems" False show False by simp
    qed
    with w1 have w: "w = Suc w'" "0 < w'" by simp_all
    with "1.prems" have "n div 2 < 2 ^ w'" by auto
    with "1.IH" [of w'] False w have "length (bin_nat (n div 2)) \<le> w'" by simp
    with False w show ?thesis by (subst bin_nat.simps) simp
  qed
qed

lemma length_format_bin: "0 < x \<Longrightarrow> x < 2 ^ w \<Longrightarrow> length (format_bin w x) = w"
proof -
  assume x: "0 < x" "x < 2 ^ w"
  then have "0 < w" by (cases w) auto
  with x have "length (bin_nat x) \<le> w" by (simp add: length_bin_nat)
  then show ?thesis by (simp add: format_bin_def Let_def)
qed

lemma dict_set_fresh: "k \<notin> fst ` set d \<Longrightarrow> dict_set k z d = d @ [(k, z)]"
  by (induction k z d rule: dict_set.induct) auto

lemma fold_dict_set_fresh:
  "distinct ks \<Longrightarrow> set ks \<inter> fst ` set d = {} \<Longrightarrow>
     fold (\<lambda>k. dict_set k z) ks d = d @ map (\<lambda>k. (k, z)) ks"
proof (induction ks arbitrary: d)
  case Nil
  then show ?case by simp
next
  case (Cons k ks)
  from Cons.prems have f: "dict_set k z d = d @ [(k, z)]"
    by (auto intro: dict_set_fresh)
  from Cons.prems have "set ks \<inter> fst ` set (d @ [(k, z)]) = {}"
    by auto
  with Cons.IH [of "d @ [(k, z)]"] Cons.prems show ?case
    by (simp add: f)
qed

lemma dict_set_lookup: "map_of (dict_set k z d) k' = (if k' = k then Some z else map_of d k')"
  by (induction k z d rule: dict_set.induct) auto

lemma fold_dict_set_lookup:
  "map_of (fold (\<lambda>k. dict_set k z) ks d) k' = (if k' \<in> set ks then Some z else map_of d k')"
  by (induction ks arbitrary: d) (auto simp: dict_set_lookup)

lemma counts_without_observable:
  assumes "mp_kind mp = CountsMP" and "mp_obs_is_none mp" and "\<not> mp_mv_is_measurement_value mp"
  shows "zero_measurement mp nw s None i =
           Inr (Dict ((StrKey (replicate nw CHR ''0''), math_asarray_shots s i) #
                  (if mp_all_outcomes mp
                   then map (\<lambda>x. (StrKey (format_bin nw x), math_asarray_int 0 i)) [1 ..< 2 ^ nw]
                   else []))) \<and>
         (\<forall>x \<in> set [1 ..< 2 ^ nw].
            length (format_bin nw x) = nw \<and> bin_val (format_bin nw x) 0 = x)"
proof -
  let ?ks = "map (\<lambda>x. StrKey (format_bin nw x)) [1 ..< 2 ^ nw]"
  have inj: "inj_on (\<lambda>x. StrKey (format_bin nw x)) (set [1 ..< 2 ^ nw])"
    by (rule inj_onI) (metis bin_val_format_bin key.inject(1))
  then have d: "distinct ?ks"
    by (simp add: distinct_map)
  have "StrKey (replicate nw CHR ''0'') \<notin> set ?ks"
  proof
    assume "StrKey (replicate nw CHR ''0'') \<in> set ?ks"
    then obtain x where "0 < x" "format_bin nw x = replicate nw CHR ''0''"
      by (auto simp: eq_commute [of "replicate nw CHR ''0''"] Suc_le_eq)
    then show False
      using bin_val_format_bin [of nw x] by (simp add: bin_val_zeros)
  qed
  then have "set ?ks \<inter> fst ` set [(StrKey (replicate nw CHR ''0''), math_asarray_shots s i)] = {}"
    by simp
  from fold_dict_set_fresh [OF d this, of "math_asarray_int 0 i"]
  have "zero_measurement mp nw s None i =
           Inr (Dict ((StrKey (replicate nw CHR ''0''), math_asarray_shots s i) #
                  (if mp_all_outcomes mp
                   then map (\<lambda>x. (StrKey (format_bin nw x), math_asarray_int 0 i)) [1 ..< 2 ^ nw]
                   else [])))"
    using assms
    by (simp add: zero_measurement_def zero_measurement_counts_def comp_def)
  then show ?thesis
    by (simp add: length_format_bin bin_val_format_bin)
qed

lemma counts_simple_smallest_eigenvalue:
  assumes "mp_kind mp = CountsMP"
    and "\<not> (mp_obs_is_none mp \<and> \<not> mp_mv_is_measurement_value mp)"
    and "sort (mp_eigvals mp) = e # es" and "e \<notin> set es"
  shows "\<exists>d. zero_measurement mp nw s None i = Inr (Dict d) \<and>
           map_of d (NumKey e) = Some (math_asarray_shots s i) \<and>
           (\<forall>k. k \<noteq> NumKey e \<longrightarrow> map_of d k =
              (if mp_all_outcomes mp \<and> k \<in> NumKey ` set es then Some (math_asarray_int 0 i)
               else None))"
  using assms
  by (auto simp: zero_measurement_def zero_measurement_counts_def fold_dict_set_lookup)

text \<open>
  C4: the code fails the claim on a counts measurement of an observable whose smallest
  eigenvalue is repeated, when all outcomes are requested: for \<open>Z \<otimes> Z\<close> and 100 shots
  the smallest eigenvalue \<open>-1\<close> is mapped to 0, not to the 100 shots, since the second
  \<open>-1\<close> of the sorted list overwrites the entry.
\<close>

theorem counts_degenerate_smallest_eigenvalue:
  "zero_measurement zz_counts_mp 2 (IntShots 100) None ''numpy'' =
     Inr (Dict [(NumKey (- 1), Arr ''numpy'' DInt [] [0]), (NumKey 1, Arr ''numpy'' DInt [] [0])])"
  by (simp add: zz_counts_mp_def zero_measurement_def zero_measurement_counts_def
      math_asarray_shots_def math_asarray_int_def)

text \<open>The example of the specification for a counts measurement without observable.\<close>

lemma counts_all_outcomes_example:
  "zero_measurement counts_mp 2 (IntShots 100) None ''numpy'' =
     Inr (Dict [(StrKey ''00'', Arr ''numpy'' DInt [] [100]),
                (StrKey ''01'', Arr ''numpy'' DInt [] [0]),
                (StrKey ''10'', Arr ''numpy'' DInt [] [0]),
                (StrKey ''11'', Arr ''numpy'' DInt [] [0])])"
proof -
  have u: "[Suc 0 ..< 4] = [Suc 0, 2, 3]"
    by (simp add: upt_rec)
  have f: "format_bin 2 (Suc 0) = ''01''" "format_bin 2 2 = ''10''" "format_bin 2 3 = ''11''"
    by (simp_all add: format_bin_def bin_nat.simps digit_char_def)
  have r: "replicate 2 CHR ''0'' = ''00''"
    by (simp add: numeral_eq_Suc)
  show ?thesis
    by (simp add: counts_mp_def zero_measurement_def zero_measurement_counts_def
        math_asarray_shots_def math_asarray_int_def u f r)
qed

lemma take_drop_concat_replicate:
  "j < b \<Longrightarrow> take (length v) (drop (j * length v) (concat (replicate b v))) = v"
proof (induction b arbitrary: j)
  case 0
  then show ?case by simp
next
  case (Suc b)
  show ?case
  proof (cases j)
    case 0
    then show ?thesis by simp
  next
    case (Suc j')
    with Suc.prems have "j' < b" by simp
    from Suc.IH [OF this] show ?thesis using Suc by simp
  qed
qed

text \<open>
  C5: for every state or probability measurement with effective wire count \<open>w\<close> (the
  measurement's own wire count if it has wires, else the device wire count), the result
  is the vector \<open>v\<close> of length \<open>2 ^ w\<close> with 1 at index 0 and 0 everywhere else, whatever
  the shots; for a batch size \<open>b\<close> it is the array of \<open>b\<close> rows, each of them \<open>v\<close>.
\<close>

theorem basis_vector_result:
  assumes "mp_kind mp = StateMP \<or> mp_kind mp = ProbabilityMP"
    and "w = (if mp_wires mp = [] then nw else length (mp_wires mp))"
    and "v = 1 # replicate (2 ^ w - 1) 0"
  shows "length v = 2 ^ w \<and> v ! 0 = 1 \<and> (\<forall>j. 0 < j \<and> j < 2 ^ w \<longrightarrow> v ! j = 0) \<and>
         zero_measurement mp nw s None interface = Inr (Arr interface DFloat [2 ^ w] v) \<and>
         (\<forall>b. \<exists>xs. zero_measurement mp nw s (Some b) interface =
                 Inr (Arr interface DFloat (if b = 0 then [0] else [b, 2 ^ w]) xs) \<and>
               length xs = b * 2 ^ w \<and>
               (\<forall>j < b. take (2 ^ w) (drop (j * 2 ^ w) xs) = v))"
proof -
  have len: "length v = 2 ^ w"
    using assms(3) by simp
  have z: "\<forall>j. 0 < j \<and> j < 2 ^ w \<longrightarrow> v ! j = 0"
    using assms(3) by (auto simp: nth_Cons split: nat.splits)
  have st: "zero_measurement mp nw s bs interface = zero_measurement_state mp nw s bs interface" for bs
    using assms(1) by (auto simp: zero_measurement_def)
  have nw: "(if length (mp_wires mp) \<noteq> 0 then length (mp_wires mp) else nw) = w"
    using assms(2) by simp
  have none: "zero_measurement mp nw s None interface = Inr (Arr interface DFloat [2 ^ w] v)"
    unfolding st zero_measurement_state_def nw Let_def using assms(3) len
    by (simp add: math_asarray_vector_def)
  have some: "\<exists>xs. zero_measurement mp nw s (Some b) interface =
                 Inr (Arr interface DFloat (if b = 0 then [0] else [b, 2 ^ w]) xs) \<and>
               length xs = b * 2 ^ w \<and>
               (\<forall>j < b. take (2 ^ w) (drop (j * 2 ^ w) xs) = v)" for b
  proof (cases b)
    case 0
    then show ?thesis
      unfolding st zero_measurement_state_def nw Let_def
      by (simp add: math_asarray_rows_def)
  next
    case (Suc b')
    have "zero_measurement mp nw s (Some b) interface =
            Inr (Arr interface DFloat [b, 2 ^ w] (concat (replicate b v)))"
      unfolding st zero_measurement_state_def nw Let_def using assms(3) Suc len
      by (simp add: math_asarray_rows_def)
    moreover have "length (concat (replicate b v)) = b * 2 ^ w"
      using len by (induction b) auto
    moreover have "\<forall>j < b. take (2 ^ w) (drop (j * 2 ^ w) (concat (replicate b v))) = v"
      using take_drop_concat_replicate [of _ b v] len by simp
    ultimately show ?thesis using Suc by simp
  qed
  show ?thesis
    using len z none some assms(3) by simp
qed

theorem basis_vector_result_witness:
  "(mp_kind probs_mp = StateMP \<or> mp_kind probs_mp = ProbabilityMP) \<and>
   (2::nat) = (if mp_wires probs_mp = [] then 2 else length (mp_wires probs_mp)) \<and>
   zero_measurement probs_mp 2 (IntShots 100) None ''numpy'' =
     Inr (Arr ''numpy'' DFloat [4] [1, 0, 0, 0])"
  using basis_vector_result [of probs_mp 2 2 "[1, 0, 0, 0]" "IntShots 100" "''numpy''"]
  by (simp add: probs_mp_def numeral_eq_Suc)

lemma int_dims_map: "int_dims (map IntDim shape) = Some shape"
  by (induction shape) auto

text \<open>
  C7: for every classical-shadow measurement, every shots value and every wire count,
  the producer raises the error of the unsupported combination whenever a batch size is
  given, before it asks the measurement for its shape (so also where the shape method
  would raise); without a batch size, where the measurement's shape method returns the
  shape of integer dimensions \<open>shape\<close>, it returns the all-zero array of 8-bit integers
  of that shape. Where the shape method raises instead (as it does without shots), the
  producer raises that error, and a dimension that is not an integer is a
  \<^verbatim>\<open>TypeError\<close>.
\<close>

theorem shadow_broadcast_error:
  assumes "mp_kind mp = ClassicalShadowMP"
  shows "zero_measurement mp nw s (Some b) interface =
           Inl (ValueError
             ''Parameter broadcasting is not supported with null.qubit and qml.classical_shadow'') \<and>
         (mp_shape mp s nw = Inr (map IntDim shape) \<longrightarrow>
            zero_measurement mp nw s None interface =
              Inr (Arr interface DInt8 shape (replicate (prod_list shape) 0))) \<and>
         (mp_shape mp s nw = Inl e \<longrightarrow> zero_measurement mp nw s None interface = Inl e) \<and>
         (mp_shape mp s nw = Inr dims \<and> int_dims dims = None \<longrightarrow>
            zero_measurement mp nw s None interface = Inl TypeError)"
  using assms
  by (simp add: zero_measurement_def zero_measurement_shadow_def math_zeros_dims_def
      math_zeros_def int_dims_map)

theorem shadow_broadcast_error_witness:
  "mp_kind shadow_mp = ClassicalShadowMP \<and>
   mp_shape shadow_mp (IntShots 1) 2 = Inr (map IntDim [2, 1, 2]) \<and>
   zero_measurement shadow_mp 2 (IntShots 1) (Some 3) ''numpy'' =
     Inl (ValueError
       ''Parameter broadcasting is not supported with null.qubit and qml.classical_shadow'') \<and>
   zero_measurement shadow_mp 2 (IntShots 1) None ''numpy'' =
     Inr (Arr ''numpy'' DInt8 [2, 1, 2] [0, 0, 0, 0]) \<and>
   zero_measurement shadow_mp 2 NoneShots (Some 3) ''numpy'' =
     Inl (ValueError
       ''Parameter broadcasting is not supported with null.qubit and qml.classical_shadow'') \<and>
   zero_measurement shadow_mp 2 NoneShots None ''numpy'' =
     Inl (MeasurementShapeError
       ''Shots must be specified to obtain the shape of a classical shadow measurement process.'') \<and>
   int_dims [IntDim 2, ObjDim (SingleShots 10), IntDim 2] = None \<and>
   zero_measurement shadow_mp 2 (ShotsObj (SingleShots 10)) None ''numpy'' = Inl TypeError"
  using shadow_broadcast_error
      [of shadow_mp 2 "IntShots 1" 3 "''numpy''" "[2, 1, 2]"]
    shadow_broadcast_error
      [of shadow_mp 2 NoneShots 3 "''numpy''" _
        "MeasurementShapeError
          ''Shots must be specified to obtain the shape of a classical shadow measurement process.''"]
    shadow_broadcast_error
      [of shadow_mp 2 "ShotsObj (SingleShots 10)" 3 "''numpy''" _ _
        "[IntDim 2, ObjDim (SingleShots 10), IntDim 2]"]
  by (simp add: shadow_mp_def numeral_eq_Suc)

section \<open>Running circuits\<close>

lemmas ex_defs = two_wire_device_def wireless_device_def tracking_device_def probs_mp_def
  expval_mp_def best_config_def bell_circuit_def one_wire_circuit_def partitioned_circuit_def
  morning_def

lemmas run_defs = execute_def simulate_def zero_results_def shot_result_def shots_iter_def
  has_partitioned_shots_def zero_measurement_def zero_measurement_state_def
  zero_measurement_default_def cached_zero_return_def math_zeros_dims_def math_zeros_def
  math_asarray_vector_def interface_of_def

lemma collect_Inr:
  "collect f xs = Inr ys \<longleftrightarrow> length ys = length xs \<and> (\<forall>k < length xs. f (xs ! k) = Inr (ys ! k))"
proof (induction xs arbitrary: ys)
  case Nil
  then show ?case by auto
next
  case (Cons x xs)
  show ?case
  proof (cases ys)
    case Nil
    then show ?thesis by (auto split: sum.splits)
  next
    case (Cons y ys')
    show ?thesis
      unfolding Cons using Cons.IH [of ys']
      by (auto simp: nth_Cons less_Suc_eq_0_disj split: sum.splits nat.splits)
  qed
qed

lemma num_device_wires_eq:
  "(case dev_wires dev of
      None \<Rightarrow> length (circuit_wires c)
    | Some ws \<Rightarrow> if length ws \<noteq> 0 then length ws else length (circuit_wires c)) =
   effective_wire_count dev c"
  by (auto simp: effective_wire_count_def split: option.splits list.splits)

lemma simulate_cases:
  "simulate dev c i w =
     (if track_resources dev
      then (if resources_fname w \<in> fst ` set (files w)
            then (Inl (FileExistsError (resources_fname w)), w\<lparr>ticks := ticks w + 1\<rparr>)
            else (zero_results (effective_wire_count dev c) c i,
                  w\<lparr>ticks := ticks w + 1,
                    files := files w @
                      [(resources_fname w, simulate_resource_use (circuit_wires c) (operations c))]\<rparr>))
      else (zero_results (effective_wire_count dev c) c i, w))"
  unfolding simulate_def num_device_wires_eq resources_fname_def
  by (simp add: Let_def)

lemma simulate_untracked:
  "\<not> track_resources dev \<Longrightarrow> simulate dev c i w = (zero_results (effective_wire_count dev c) c i, w)"
  by (simp add: simulate_cases)

lemma simulate_result:
  "fst (simulate dev c i w) = zero_results (effective_wire_count dev c) c i \<or>
   (track_resources dev \<and> fst (simulate dev c i w) = Inl (FileExistsError (resources_fname w)))"
  by (simp add: simulate_cases)

lemma simulate_all_result:
  "fst (simulate_all dev i cs w) = collect (\<lambda>c. zero_results (effective_wire_count dev c) c i) cs \<or>
   (track_resources dev \<and> is_file_exists (fst (simulate_all dev i cs w)))"
proof (induction cs arbitrary: w)
  case Nil
  then show ?case by simp
next
  case (Cons c cs)
  obtain r w' where s: "simulate dev c i w = (r, w')"
    by (cases "simulate dev c i w")
  from simulate_result [of dev c i w] s
  consider (pure) "r = zero_results (effective_wire_count dev c) c i"
    | (clash) "track_resources dev" "r = Inl (FileExistsError (resources_fname w))"
    by auto
  then show ?case
  proof cases
    case pure
    show ?thesis
    proof (cases r)
      case (Inl e)
      with pure have z: "zero_results (effective_wire_count dev c) c i = Inl e" by simp
      from s Inl show ?thesis by (simp add: z)
    next
      case (Inr v)
      with pure have z: "zero_results (effective_wire_count dev c) c i = Inr v" by simp
      obtain rs w'' where a: "simulate_all dev i cs w' = (rs, w'')"
        by (cases "simulate_all dev i cs w'")
      from Cons.IH [of w'] a
      show ?thesis using s Inr
        by (auto simp: z is_file_exists_def split: sum.splits error.splits)
    qed
  next
    case clash
    with s show ?thesis by (simp add: is_file_exists_def)
  qed
qed




lemma execute_fst:
  "fst (execute dev cs cfg w) =
     (case fst (simulate_all dev (interface_of cfg) cs w) of
        Inl e \<Rightarrow> Inl e | Inr rs \<Rightarrow> Inr (Tuple rs))"
  by (auto simp: execute_def split: prod.splits sum.splits)


lemma execute_Inr:
  assumes "fst (execute dev cs cfg w) = Inr r"
  shows "\<exists>rs. r = Tuple rs \<and> length rs = length cs \<and>
           (\<forall>k < length cs.
              zero_results (effective_wire_count dev (cs ! k)) (cs ! k) (interface_of cfg) =
                Inr (rs ! k))"
proof -
  from assms obtain rs where rs: "fst (simulate_all dev (interface_of cfg) cs w) = Inr rs"
    and r: "r = Tuple rs"
    by (auto simp: execute_fst split: sum.splits)
  from simulate_all_result [of dev "interface_of cfg" cs w] rs
  have "collect (\<lambda>c. zero_results (effective_wire_count dev c) c (interface_of cfg)) cs = Inr rs"
    by (auto simp: is_file_exists_def)
  with r show ?thesis by (auto simp: collect_Inr)
qed












lemma collect_map_result:
  "collect (\<lambda>x. case f x of Inl e \<Rightarrow> Inl e | Inr v \<Rightarrow> Inr (h v)) xs =
     (case collect f xs of Inl e \<Rightarrow> Inl e | Inr vs \<Rightarrow> Inr (map h vs))"
  by (induction xs) (auto split: sum.splits)

lemma zero_derivatives_Inr:
  "zero_derivatives zl s N c i = Inr r \<longleftrightarrow>
     (\<exists>vs. length vs = length (measurements c) \<and>
        (\<forall>k < length (measurements c).
           zero_measurement (measurements c ! k) N s (batch_size c) i = Inr (vs ! k)) \<and>
        r = (let n = length (trainable_params c);
                 ds = map (\<lambda>v. if n = 1 then zl v else Tuple (replicate n (zl v))) vs
             in if length (measurements c) = 1 then ds ! 0 else Tuple ds))"
proof -
  let ?f = "\<lambda>mp. zero_measurement mp N s (batch_size c) i"
  let ?n = "length (trainable_params c)"
  have m: "(if ?n = 1 then map (\<lambda>d. d ! 0) (map (\<lambda>v. replicate ?n (zl v)) vs)
            else map Tuple (map (\<lambda>v. replicate ?n (zl v)) vs)) =
           map (\<lambda>v. if ?n = 1 then zl v else Tuple (replicate ?n (zl v))) vs" for vs
    by simp
  have "zero_derivatives zl s N c i = Inr r \<longleftrightarrow>
      (\<exists>vs. collect ?f (measurements c) = Inr vs \<and>
         r = (let ds = map (\<lambda>v. if ?n = 1 then zl v else Tuple (replicate ?n (zl v))) vs
              in if length ds = 1 then ds ! 0 else Tuple ds))"
    unfolding zero_derivatives_def collect_map_result Let_def
    by (auto simp: m split: sum.splits)
  also have "\<dots> \<longleftrightarrow>
     (\<exists>vs. length vs = length (measurements c) \<and>
        (\<forall>k < length (measurements c). ?f (measurements c ! k) = Inr (vs ! k)) \<and>
        r = (let n = ?n;
                 ds = map (\<lambda>v. if n = 1 then zl v else Tuple (replicate n (zl v))) vs
             in if length (measurements c) = 1 then ds ! 0 else Tuple ds))"
    (is "?A \<longleftrightarrow> ?B")
  proof
    assume ?A
    then obtain vs where c: "collect ?f (measurements c) = Inr vs"
      and r: "r = (let ds = map (\<lambda>v. if ?n = 1 then zl v else Tuple (replicate ?n (zl v))) vs
                   in if length ds = 1 then ds ! 0 else Tuple ds)"
      by blast
    from c have l: "length vs = length (measurements c)"
      and a: "\<forall>k < length (measurements c). ?f (measurements c ! k) = Inr (vs ! k)"
      by (simp_all add: collect_Inr)
    from l a r show ?B
      by (intro exI [of _ vs]) (simp add: Let_def)
  next
    assume ?B
    then obtain vs where l: "length vs = length (measurements c)"
      and a: "\<forall>k < length (measurements c). ?f (measurements c ! k) = Inr (vs ! k)"
      and r: "r = (let n = ?n;
                 ds = map (\<lambda>v. if n = 1 then zl v else Tuple (replicate n (zl v))) vs
             in if length (measurements c) = 1 then ds ! 0 else Tuple ds)"
      by blast
    from l a have c: "collect ?f (measurements c) = Inr vs"
      by (simp add: collect_Inr)
    from c l r show ?A
      by (intro exI [of _ vs]) (simp add: Let_def)
  qed
  finally show ?thesis .
qed

lemma derivatives_shadow_type_error:
  "derivatives zl dev shadow_circuit interface = Inl TypeError"
  by (simp add: derivatives_def zero_derivatives_def shadow_circuit_def shadow_mp_def
      zero_measurement_def zero_measurement_shadow_def math_zeros_dims_def)

text \<open>
  C10: the wire count that \<open>_simulate\<close> and \<open>_derivatives\<close> hand to the producers is the
  number of wires the device was constructed with when that is non-empty, and the circuit's
  own wire count otherwise (no wires given, or an empty collection): the result of
  \<open>_simulate\<close> is that of the loop over shots and measurements run at that count, and
  \<open>_derivatives\<close> returns exactly when every producer, called at that count with the
  circuit's shots object, returns, its value being built from \<^verbatim>\<open>zeros_like\<close> of what
  they return. A device constructed without wires gives each circuit of a batch the
  results for that circuit's own wire count.
\<close>

theorem device_wire_count:
  "derivatives zl dev c i =
     zero_derivatives zl (ShotsObj (circuit_shots c)) (effective_wire_count dev c) c i \<and>
   (derivatives zl dev c i = Inr r \<longleftrightarrow>
     (\<exists>vs. length vs = length (measurements c) \<and>
        (\<forall>k < length (measurements c).
           zero_measurement (measurements c ! k) (effective_wire_count dev c)
             (ShotsObj (circuit_shots c)) (batch_size c) i = Inr (vs ! k)) \<and>
        r = (let n = length (trainable_params c);
                 ds = map (\<lambda>v. if n = 1 then zl v else Tuple (replicate n (zl v))) vs
             in if length (measurements c) = 1 then ds ! 0 else Tuple ds))) \<and>
   (fst (simulate dev c i w) = zero_results (effective_wire_count dev c) c i \<or>
      track_resources dev \<and>
      fst (simulate dev c i w) = Inl (FileExistsError (resources_fname w))) \<and>
   (\<not> track_resources dev \<longrightarrow>
      simulate dev c i w = (zero_results (effective_wire_count dev c) c i, w)) \<and>
   (dev_wires dev = Some ws \<and> ws \<noteq> [] \<longrightarrow> effective_wire_count dev c = length ws) \<and>
   (dev_wires dev = None \<or> dev_wires dev = Some [] \<longrightarrow>
      effective_wire_count dev c = length (circuit_wires c)) \<and>
   (dev_wires dev = None \<and> fst (execute dev cs cfg w) = Inr R \<longrightarrow>
      (\<exists>rs. R = Tuple rs \<and> length rs = length cs \<and>
         (\<forall>k < length cs.
            zero_results (length (circuit_wires (cs ! k))) (cs ! k) (interface_of cfg) =
              Inr (rs ! k))))"
proof -
  have d: "derivatives zl dev c i =
     zero_derivatives zl (ShotsObj (circuit_shots c)) (effective_wire_count dev c) c i"
    unfolding derivatives_def num_device_wires_eq by (simp add: Let_def)
  have d': "derivatives zl dev c i = Inr r \<longleftrightarrow>
     (\<exists>vs. length vs = length (measurements c) \<and>
        (\<forall>k < length (measurements c).
           zero_measurement (measurements c ! k) (effective_wire_count dev c)
             (ShotsObj (circuit_shots c)) (batch_size c) i = Inr (vs ! k)) \<and>
        r = (let n = length (trainable_params c);
                 ds = map (\<lambda>v. if n = 1 then zl v else Tuple (replicate n (zl v))) vs
             in if length (measurements c) = 1 then ds ! 0 else Tuple ds))"
    unfolding d by (rule zero_derivatives_Inr)
  have n: "effective_wire_count dev c' = length (circuit_wires c')" if "dev_wires dev = None" for c'
    using that by (simp add: effective_wire_count_def)
  have e: "dev_wires dev = None \<and> fst (execute dev cs cfg w) = Inr R \<longrightarrow>
      (\<exists>rs. R = Tuple rs \<and> length rs = length cs \<and>
         (\<forall>k < length cs.
            zero_results (length (circuit_wires (cs ! k))) (cs ! k) (interface_of cfg) =
              Inr (rs ! k)))"
    using execute_Inr [of dev cs cfg w R] n by auto
  have f: "(dev_wires dev = Some ws \<and> ws \<noteq> [] \<longrightarrow> effective_wire_count dev c = length ws) \<and>
   (dev_wires dev = None \<or> dev_wires dev = Some [] \<longrightarrow>
      effective_wire_count dev c = length (circuit_wires c))"
    by (auto simp: effective_wire_count_def split: list.splits)
  from d d' e f simulate_result [of dev c i w] simulate_untracked [of dev c i w]
  show ?thesis by blast
qed

theorem device_wire_count_witness:
  "dev_wires wireless_device = None \<and>
   fst (execute wireless_device [one_wire_circuit, bell_circuit] best_config morning) =
     Inr (Tuple [Arr ''numpy'' DFloat [2] [1, 0], Arr ''numpy'' DFloat [4] [1, 0, 0, 0]]) \<and>
   effective_wire_count wireless_device one_wire_circuit = 1 \<and>
   effective_wire_count wireless_device bell_circuit = 2 \<and>
   dev_wires two_wire_device = Some [IntWire 0, IntWire 1] \<and>
   effective_wire_count two_wire_device one_wire_circuit = 2 \<and>
   simulate two_wire_device one_wire_circuit ''numpy'' morning =
     (Inr (Arr ''numpy'' DFloat [4] [1, 0, 0, 0]), morning) \<and>
   derivatives zeros_like_array two_wire_device one_param_circuit ''numpy'' =
     Inr (Arr ''numpy'' DFloat [4] [0, 0, 0, 0]) \<and>
   derivatives zeros_like_array wireless_device one_param_circuit ''numpy'' =
     Inr (Arr ''numpy'' DFloat [2] [0, 0]) \<and>
   derivatives zeros_like_array two_wire_device two_param_circuit ''numpy'' =
     Inr (Tuple [Tuple [Arr ''numpy'' DFloat [] [0], Arr ''numpy'' DFloat [] [0]],
                 Tuple [Arr ''numpy'' DFloat [4] [0, 0, 0, 0],
                        Arr ''numpy'' DFloat [4] [0, 0, 0, 0]]])"
proof -
  have e: "fst (execute wireless_device [one_wire_circuit, bell_circuit] best_config morning) =
     Inr (Tuple [Arr ''numpy'' DFloat [2] [1, 0], Arr ''numpy'' DFloat [4] [1, 0, 0, 0]])"
    by (simp add: ex_defs run_defs numeral_eq_Suc)
  have z: "zero_results 2 one_wire_circuit ''numpy'' = Inr (Arr ''numpy'' DFloat [4] [1, 0, 0, 0])"
    by (simp add: ex_defs run_defs numeral_eq_Suc)
  have t: "\<not> track_resources two_wire_device" "dev_wires two_wire_device = Some [IntWire 0, IntWire 1]"
    "dev_wires wireless_device = None"
    by (simp_all add: two_wire_device_def wireless_device_def)
  from device_wire_count [of _ wireless_device one_wire_circuit _ _ _ _ _ _] t
  have a: "effective_wire_count wireless_device one_wire_circuit = 1"
    by (simp add: one_wire_circuit_def)
  from device_wire_count [of _ wireless_device bell_circuit _ _ _ _ _ _] t
  have b: "effective_wire_count wireless_device bell_circuit = 2"
    by (simp add: bell_circuit_def)
  from device_wire_count
    [of _ two_wire_device one_wire_circuit "''numpy''" _ morning "[IntWire 0, IntWire 1]"] t
  have c: "effective_wire_count two_wire_device one_wire_circuit = 2"
    "simulate two_wire_device one_wire_circuit ''numpy'' morning =
       (zero_results (effective_wire_count two_wire_device one_wire_circuit) one_wire_circuit
          ''numpy'', morning)"
    by simp_all
  have w2: "effective_wire_count two_wire_device one_param_circuit = 2"
    "effective_wire_count wireless_device one_param_circuit = 1"
    "effective_wire_count two_wire_device two_param_circuit = 2"
    by (simp_all add: effective_wire_count_def ex_defs one_param_circuit_def
        two_param_circuit_def)
  have p: "zero_derivatives zeros_like_array (ShotsObj NoShots) 2 one_param_circuit ''numpy'' =
      Inr (Arr ''numpy'' DFloat [4] [0, 0, 0, 0])"
    "zero_derivatives zeros_like_array (ShotsObj NoShots) (Suc 0) one_param_circuit ''numpy'' =
      Inr (Arr ''numpy'' DFloat [2] [0, 0])"
    "zero_derivatives zeros_like_array (ShotsObj NoShots) 2 two_param_circuit ''numpy'' =
      Inr (Tuple [Tuple [Arr ''numpy'' DFloat [] [0], Arr ''numpy'' DFloat [] [0]],
                 Tuple [Arr ''numpy'' DFloat [4] [0, 0, 0, 0],
                        Arr ''numpy'' DFloat [4] [0, 0, 0, 0]]])"
    by (simp_all add: zero_derivatives_def zeros_like_array_def one_param_circuit_def
        two_param_circuit_def ex_defs run_defs numeral_eq_Suc)
  have s: "circuit_shots one_param_circuit = NoShots" "circuit_shots two_param_circuit = NoShots"
    by (simp_all add: one_param_circuit_def two_param_circuit_def one_wire_circuit_def)
  from device_wire_count
    [of zeros_like_array two_wire_device one_param_circuit "''numpy''" "Tuple []" morning "[]" "[]" best_config
        "Tuple []", THEN conjunct1]
  have d1: "derivatives zeros_like_array two_wire_device one_param_circuit ''numpy'' =
     Inr (Arr ''numpy'' DFloat [4] [0, 0, 0, 0])"
    by (simp add: w2 s p)
  from device_wire_count
    [of zeros_like_array wireless_device one_param_circuit "''numpy''" "Tuple []" morning "[]" "[]" best_config
        "Tuple []", THEN conjunct1]
  have d2: "derivatives zeros_like_array wireless_device one_param_circuit ''numpy'' =
     Inr (Arr ''numpy'' DFloat [2] [0, 0])"
    by (simp add: w2 s p)
  from device_wire_count
    [of zeros_like_array two_wire_device two_param_circuit "''numpy''" "Tuple []" morning "[]" "[]" best_config
        "Tuple []", THEN conjunct1]
  have d3: "derivatives zeros_like_array two_wire_device two_param_circuit ''numpy'' =
     Inr (Tuple [Tuple [Arr ''numpy'' DFloat [] [0], Arr ''numpy'' DFloat [] [0]],
                 Tuple [Arr ''numpy'' DFloat [4] [0, 0, 0, 0],
                        Arr ''numpy'' DFloat [4] [0, 0, 0, 0]]])"
    by (simp add: w2 s p)
  from e a b c z t d1 d2 d3 show ?thesis by simp
qed

end
